theory Spec2Isabelle
  imports Complex_Main
begin

section \<open>JavaScript values, HTTP replies and requests\<close>

text \<open>
  A JavaScript string that may be \<open>undefined\<close>: \<open>None\<close> is \<open>undefined\<close>.
  \<open>falsy\<close> is the test \<open>!v\<close>, \<open>js_or v d\<close> is \<open>v || d\<close> with a string default and
  \<open>msg_or m d\<close> is \<open>e.message || d\<close> for a message that is always a string.
\<close>

type_synonym js_string = "string option"

definition falsy :: "js_string \<Rightarrow> bool" where
  "falsy v = (case v of None \<Rightarrow> True | Some s \<Rightarrow> s = [])"

definition js_or :: "js_string \<Rightarrow> string \<Rightarrow> string" where
  "js_or v d = (case v of None \<Rightarrow> d | Some s \<Rightarrow> if s = [] then d else s)"

definition msg_or :: "string \<Rightarrow> string \<Rightarrow> string" where
  "msg_or m d = (if m = [] then d else m)"

text \<open>\<open>s.includes(sub)\<close> on strings.\<close>

fun str_includes :: "string \<Rightarrow> string \<Rightarrow> bool" where
  "str_includes [] sub = (sub = [])"
| "str_includes (c # cs) sub = (take (length sub) (c # cs) = sub \<or> str_includes cs sub)"

text \<open>
  The parsed JSON object \<open>data\<close> of a response, with the fields the code reads.
  \<open>j_success\<close>, \<open>j_device_opened\<close> and \<open>j_mock_mode\<close> are \<open>False\<close> when the field is
  absent; \<open>j_score\<close> is the value of the parsed number.
\<close>

record json =
  j_success :: bool
  j_template :: js_string
  j_error :: js_string
  j_message :: js_string
  j_matched :: "bool option"
  j_score :: "real option"
  j_device_opened :: bool
  j_mock_mode :: bool

definition empty_json :: json where
  "empty_json = \<lparr>j_success = False, j_template = None, j_error = None, j_message = None,
     j_matched = None, j_score = None, j_device_opened = False, j_mock_mode = False\<rparr>"

text \<open>
  What a \<open>fetch\<close> can do. The body of a response is either text that \<open>JSON.parse\<close> rejects
  (the raw text and the parser's message) or a parsed object. A fetch rejects with a
  \<open>TypeError\<close> (network error) or resolves with a status and a body. A reply reaches the
  client a number of milliseconds after the request, or never.
\<close>

datatype 'a body = Unparsable string string | Json 'a

datatype 'a fetched = Rejected string | Response nat "'a body"

datatype 'a reply = Never | At nat "'a fetched"

text \<open>A thrown JavaScript error: \<open>e.name\<close> and \<open>e.message\<close>.\<close>

datatype js_exn = Exn (name: string) (message: string)

definition ok :: "nat \<Rightarrow> bool" where
  "ok status = (200 \<le> status \<and> status \<le> 299)"

fun fetch_settle :: "'a fetched \<Rightarrow> js_exn + (nat \<times> 'a body)" where
  "fetch_settle (Rejected m) = Inl (Exn ''TypeError'' m)"
| "fetch_settle (Response st b) = Inr (st, b)"

fun response_json :: "'a body \<Rightarrow> js_exn + 'a" where
  "response_json (Unparsable raw m) = Inl (Exn ''SyntaxError'' m)"
| "response_json (Json d) = Inr d"

text \<open>\<open>await fetch(...)\<close> followed by \<open>await response.json()\<close>, the status not looked at.\<close>

fun fetch_json :: "'a fetched \<Rightarrow> js_exn + 'a" where
  "fetch_json (Rejected m) = Inl (Exn ''TypeError'' m)"
| "fetch_json (Response st b) = response_json b"

text \<open>
  A fetch given the signal of an \<open>AbortController\<close> whose \<open>abort()\<close> is scheduled \<open>ms\<close>
  milliseconds after the request: a reply that has not come by then is replaced by an
  \<open>AbortError\<close>.
\<close>

definition abortError :: js_exn where
  "abortError = Exn ''AbortError'' ''The user aborted a request.''"

fun fetch_with_abort :: "nat \<Rightarrow> 'a reply \<Rightarrow> js_exn + 'a" where
  "fetch_with_abort ms Never = Inl abortError"
| "fetch_with_abort ms (At t f) = (if t < ms then fetch_json f else Inl abortError)"

text \<open>The employee record, with the fields the fingerprint flows read.\<close>

record employee =
  emp_id :: string
  employeeId :: string
  firstName :: string
  fingerprintEnrolled :: bool

datatype action = clock_in | clock_out

text \<open>The requests the client sends, in the order it sends them.\<close>

datatype request =
    GetHealth
  | PostCapture
  | PostEnroll string "js_string list"
  | PostFingerprintEnroll string js_string
  | GetFingerprintTemplate string
  | PostMatch js_string js_string
  | PostAttendanceRecord string action
  | PostLeaves string

section \<open>FingerprintEnrollmentDialog\<close>

definition CAPTURE_TIMEOUT :: nat where
  "CAPTURE_TIMEOUT = 15000"

text \<open>
  The component's state (the \<open>useState\<close> cells and the \<open>templatesRef\<close> ref).
\<close>

record enroll_state =
  activeStep :: nat
  capturing :: bool
  saving :: bool
  templates :: "js_string list"
  templatesRef :: "js_string list"
  error :: "string option"
  success :: bool
  scannerConnected :: bool
  checkingScanner :: bool
  statusMessage :: string
  countdown :: nat

definition initial_state :: enroll_state where
  "initial_state = \<lparr>activeStep = 0, capturing = False, saving = False, templates = [],
     templatesRef = [], error = None, success = False, scannerConnected = False,
     checkingScanner = True, statusMessage = [], countdown = 0\<rparr>"

text \<open>
  An \<open>async\<close> handler is a function from the state it starts in, and the replies its
  requests get, to a run: the state it leaves, the requests it sent in order, and whether
  it settled. Where a fetch never settles the handler stays suspended at that \<open>await\<close>:
  the state is the one written so far and \<open>settled\<close> is \<open>False\<close>.
\<close>

record 's run =
  final :: 's
  sent :: "request list"
  settled :: bool

text \<open>
  \<open>checkScanner\<close>: the health request carries \<open>AbortSignal.timeout(3000)\<close>; any failure
  and any non-2xx status give \<open>scannerConnected = false\<close>.
\<close>

definition checkScanner :: "json reply \<Rightarrow> enroll_state \<Rightarrow> enroll_state run" where
  "checkScanner healthReply s =
     (let connected =
        (case healthReply of
           Never \<Rightarrow> False
         | At t f \<Rightarrow>
             if t < 3000 then
               (case fetch_settle f of
                  Inl e \<Rightarrow> False
                | Inr (st, b) \<Rightarrow>
                    if ok st then
                      (case response_json b of
                         Inl e \<Rightarrow> False
                       | Inr d \<Rightarrow> j_device_opened d \<or> j_mock_mode d)
                    else False)
             else False)
      in \<lparr>final = s\<lparr>scannerConnected := connected, checkingScanner := False\<rparr>,
          sent = [GetHealth], settled = True\<rparr>)"

text \<open>The effect that runs when \<open>open\<close> changes: "Reset state when dialog opens".\<close>

definition openEffect :: "bool \<Rightarrow> json reply \<Rightarrow> enroll_state \<Rightarrow> enroll_state run" where
  "openEffect is_open healthReply s =
     (if is_open then
        checkScanner healthReply
          (s\<lparr>checkingScanner := True, activeStep := 0, templates := [], templatesRef := [],
             error := None, success := False, saving := False, statusMessage := [],
             countdown := 0\<rparr>)
      else \<lparr>final = s, sent = [], settled = True\<rparr>)"

text \<open>\<open>handleRetry\<close>, the "Start Over" button.\<close>

definition handleRetry :: "enroll_state \<Rightarrow> enroll_state" where
  "handleRetry s = s\<lparr>templates := [], templatesRef := [], activeStep := 0, error := None,
     success := False, statusMessage := [], countdown := 0\<rparr>"

text \<open>
  \<open>saveFingerprint\<close>. Its \<open>catch\<close> and \<open>finally\<close> blocks: the error is shown and the
  step goes back to 2 ("Reset to allow retry"); \<open>templates\<close> is not written.
\<close>

definition save_catch :: "string \<Rightarrow> enroll_state \<Rightarrow> enroll_state" where
  "save_catch m s = s\<lparr>error := Some (msg_or m ''Failed to save fingerprint''),
     statusMessage := [], activeStep := 2, saving := False\<rparr>"

text \<open>The message thrown for a non-2xx reply of the backend's enroll endpoint.\<close>

definition save_error_message :: "json body \<Rightarrow> string" where
  "save_error_message b =
     (case b of
        Json d \<Rightarrow> js_or (j_error d) ''Failed to save fingerprint to database''
      | Unparsable errorText m \<Rightarrow>
          if str_includes errorText ''<!DOCTYPE'' \<or> str_includes errorText ''<html''
          then ''Backend server not responding correctly. Check backend logs.''
          else ''Failed to save fingerprint to database'')"

text \<open>Step 2 of \<open>saveFingerprint\<close>: the merged template is posted to the backend.\<close>

definition save_merged ::
  "employee \<Rightarrow> json reply \<Rightarrow> json \<Rightarrow> enroll_state \<Rightarrow> request list \<Rightarrow> enroll_state run" where
  "save_merged e saveReply enrollData s sent1 =
     (let s2 = s\<lparr>statusMessage := ''Saving to database...''\<rparr>;
          sent2 = sent1 @ [PostFingerprintEnroll (emp_id e) (j_template enrollData)]
      in case saveReply of
           Never \<Rightarrow> \<lparr>final = s2, sent = sent2, settled = False\<rparr>
         | At t f \<Rightarrow>
             (case fetch_settle f of
                Inl x \<Rightarrow> \<lparr>final = save_catch (message x) s2, sent = sent2, settled = True\<rparr>
              | Inr (st, b) \<Rightarrow>
                  if \<not> ok st
                  then \<lparr>final = save_catch (save_error_message b) s2, sent = sent2,
                        settled = True\<rparr>
                  else
                    (case response_json b of
                       Inl x \<Rightarrow>
                         \<lparr>final = save_catch (message x) s2, sent = sent2, settled = True\<rparr>
                     | Inr saveResult \<Rightarrow>
                         \<lparr>final = s2\<lparr>success := True,
                                     statusMessage := ''Fingerprint enrolled successfully!'',
                                     saving := False\<rparr>,
                          sent = sent2, settled = True\<rparr>)))"

definition saveFingerprint ::
  "employee option \<Rightarrow> json reply \<Rightarrow> json reply \<Rightarrow> js_string list \<Rightarrow> enroll_state
     \<Rightarrow> enroll_state run" where
  "saveFingerprint employee enrollReply saveReply capturedTemplates s =
     (case employee of
        None \<Rightarrow> \<lparr>final = s, sent = [], settled = True\<rparr>
      | Some e \<Rightarrow>
          (let s1 = s\<lparr>saving := True, error := None,
                      statusMessage := ''Merging fingerprint templates...''\<rparr>;
               sent1 = [PostEnroll (employeeId e) capturedTemplates]
           in case enrollReply of
                Never \<Rightarrow> \<lparr>final = s1, sent = sent1, settled = False\<rparr>
              | At t f \<Rightarrow>
                  (case fetch_json f of
                     Inl x \<Rightarrow>
                       \<lparr>final = save_catch (message x) s1, sent = sent1, settled = True\<rparr>
                   | Inr enrollData \<Rightarrow>
                       if \<not> j_success enrollData
                       then \<lparr>final = save_catch
                                      (js_or (j_error enrollData)
                                         ''Failed to merge fingerprint templates'') s1,
                             sent = sent1, settled = True\<rparr>
                       else save_merged e saveReply enrollData s1 sent1)))"

text \<open>
  \<open>captureFingerprint\<close> of the dialog. Its \<open>catch\<close> block tells the abort of the
  client's own timer from every other error by \<open>e.name\<close>; neither branch writes
  \<open>templates\<close> or \<open>activeStep\<close>. The countdown ticks and the status texts that are
  overwritten before the handler ends are left out. \<open>saveFingerprint\<close> is awaited inside
  the \<open>try\<close>, so \<open>capturing\<close> goes back to \<open>false\<close> only once it has settled.
\<close>

definition capture_catch :: "js_exn \<Rightarrow> enroll_state \<Rightarrow> enroll_state" where
  "capture_catch e s =
     s\<lparr>countdown := 0,
       error := Some (if name e = ''AbortError''
                      then ''Capture timeout - no finger detected. Click to try again.''
                      else msg_or (message e) ''Failed to capture fingerprint''),
       statusMessage := [], capturing := False\<rparr>"

definition captureFingerprint ::
  "employee option \<Rightarrow> json reply \<Rightarrow> json reply \<Rightarrow> json reply \<Rightarrow> enroll_state
     \<Rightarrow> enroll_state run" where
  "captureFingerprint employee captureReply enrollReply saveReply s =
     (let s1 = s\<lparr>capturing := True, error := None,
                 countdown := CAPTURE_TIMEOUT div 1000\<rparr>
      in case fetch_with_abort CAPTURE_TIMEOUT captureReply of
           Inl e \<Rightarrow> \<lparr>final = capture_catch e s1, sent = [PostCapture], settled = True\<rparr>
         | Inr data \<Rightarrow>
             if \<not> j_success data
             then \<lparr>final = capture_catch
                            (Exn ''Error''
                               (js_or (j_error data)
                                  ''Capture failed. Place finger firmly on scanner.'')) s1,
                   sent = [PostCapture], settled = True\<rparr>
             else
               (let newTemplates = templatesRef s1 @ [j_template data];
                    s2 = s1\<lparr>countdown := 0, templates := newTemplates,
                            templatesRef := newTemplates\<rparr>
                in if length newTemplates < 3
                   then \<lparr>final = s2\<lparr>activeStep := length newTemplates,
                            statusMessage := ''Lift finger, then place again for next capture'',
                            capturing := False\<rparr>,
                         sent = [PostCapture], settled = True\<rparr>
                   else
                     (let r = saveFingerprint employee enrollReply saveReply newTemplates
                                (s2\<lparr>activeStep := 3,
                                    statusMessage := ''All captures complete. Saving...''\<rparr>)
                      in \<lparr>final = (if settled r then (final r)\<lparr>capturing := False\<rparr>
                                    else final r),
                          sent = PostCapture # sent r, settled = settled r\<rparr>)))"

text \<open>
  The two halves of \<open>captureFingerprint\<close>, for a capture whose reply comes while other
  things happen. \<open>capture_begin\<close> is what runs before the \<open>await\<close> of the fetch.
  \<open>capture_resume\<close> is what runs once the fetch has settled, with the \<open>employee\<close> of the
  render in which the button was clicked: it reads \<open>templatesRef.current\<close> and writes the
  state as they are at that moment. Nothing cancels a fetch in flight but its own timer.
  \<open>show_nat\<close> prints the capture number.
\<close>

fun show_nat :: "nat \<Rightarrow> string" where
  "show_nat n =
     (if n < 10 then [char_of (48 + n)]
      else show_nat (n div 10) @ [char_of (48 + n mod 10)])"

declare show_nat.simps [simp del]

definition capture_begin :: "enroll_state \<Rightarrow> enroll_state" where
  "capture_begin s =
     s\<lparr>capturing := True, error := None,
       statusMessage := ''Capture '' @ show_nat (length (templatesRef s) + 1)
                          @ '': Place finger on scanner...'',
       countdown := CAPTURE_TIMEOUT div 1000\<rparr>"

definition capture_resume ::
  "employee option \<Rightarrow> json reply \<Rightarrow> json reply \<Rightarrow> json reply \<Rightarrow> enroll_state
     \<Rightarrow> enroll_state run" where
  "capture_resume employee captureReply enrollReply saveReply s =
     (case fetch_with_abort CAPTURE_TIMEOUT captureReply of
        Inl e \<Rightarrow> \<lparr>final = capture_catch e s, sent = [], settled = True\<rparr>
      | Inr data \<Rightarrow>
          if \<not> j_success data
          then \<lparr>final = capture_catch
                         (Exn ''Error''
                            (js_or (j_error data)
                               ''Capture failed. Place finger firmly on scanner.'')) s,
                sent = [], settled = True\<rparr>
          else
            (let newTemplates = templatesRef s @ [j_template data];
                 s2 = s\<lparr>countdown := 0, templates := newTemplates,
                        templatesRef := newTemplates\<rparr>
             in if length newTemplates < 3
                then \<lparr>final = s2\<lparr>activeStep := length newTemplates,
                         statusMessage := ''Lift finger, then place again for next capture'',
                         capturing := False\<rparr>,
                      sent = [], settled = True\<rparr>
                else
                  (let r = saveFingerprint employee enrollReply saveReply newTemplates
                             (s2\<lparr>activeStep := 3,
                                 statusMessage := ''All captures complete. Saving...''\<rparr>)
                   in \<lparr>final = (if settled r then (final r)\<lparr>capturing := False\<rparr>
                                 else final r),
                       sent = sent r, settled = settled r\<rparr>)))"

text \<open>
  What the open dialog renders, from the chain of conditions of its \<open>return\<close>: nothing
  without an employee, the scanner check, the "not connected" alert, and then the success,
  error, busy or ready content. The buttons of each view call the handlers:
  "Start Over" (\<open>handleRetry\<close>) in the error view, "Retry Capture n" (\<open>captureFingerprint\<close>)
  in the error view when \<open>activeStep < 3 && templates.length > 0\<close>, and the capture
  button of the ready view.
\<close>

datatype view = NoDialog | CheckingView | NotConnectedView | SuccessView | ErrorView
  | BusyView | ReadyView

definition view_of :: "employee option \<Rightarrow> enroll_state \<Rightarrow> view" where
  "view_of employee s =
     (if employee = None then NoDialog
      else if checkingScanner s then CheckingView
      else if \<not> scannerConnected s then NotConnectedView
      else if success s then SuccessView
      else if error s \<noteq> None then ErrorView
      else if capturing s \<or> saving s then BusyView
      else ReadyView)"

definition retryCaptureShown :: "employee option \<Rightarrow> enroll_state \<Rightarrow> bool" where
  "retryCaptureShown employee s =
     (view_of employee s = ErrorView \<and> activeStep s < 3 \<and> length (templates s) > 0)"

text \<open>
  A click, with the replies the requests of its handler get: (capture, enroll, save).
  A click on a button that is not on the screen does nothing.
\<close>

datatype click =
    ClickCapture "json reply" "json reply" "json reply"
  | ClickRetryCapture "json reply" "json reply" "json reply"
  | ClickStartOver

fun on_click :: "employee option \<Rightarrow> enroll_state \<Rightarrow> click \<Rightarrow> enroll_state run" where
  "on_click employee s (ClickCapture c e v) =
     (if view_of employee s = ReadyView then captureFingerprint employee c e v s
      else \<lparr>final = s, sent = [], settled = True\<rparr>)"
| "on_click employee s (ClickRetryCapture c e v) =
     (if retryCaptureShown employee s then captureFingerprint employee c e v s
      else \<lparr>final = s, sent = [], settled = True\<rparr>)"
| "on_click employee s ClickStartOver =
     (if view_of employee s = ErrorView
      then \<lparr>final = handleRetry s, sent = [], settled = True\<rparr>
      else \<lparr>final = s, sent = [], settled = True\<rparr>)"

text \<open>A session: the clicks one after the other, the requests collected in order.\<close>

fun clicks :: "employee option \<Rightarrow> enroll_state \<Rightarrow> click list \<Rightarrow> enroll_state \<times> request list" where
  "clicks employee s [] = (s, [])"
| "clicks employee s (c # cs) =
     (let r = on_click employee s c;
          (s', rest) = clicks employee (final r) cs
      in (s', sent r @ rest))"

section \<open>The page that opens the dialog\<close>

text \<open>
  The employees page keeps the dialog mounted and gives it \<open>open\<close> and \<open>employee\<close>.
  \<open>handleOpenEnrollDialog\<close> sets both; \<open>onClose\<close> and \<open>onSuccess\<close> set \<open>open\<close> to false.
  The dialog calls \<open>onClose\<close> from \<open>handleClose\<close>, which does nothing while \<open>capturing\<close> or
  \<open>saving\<close>, and calls \<open>onSuccess\<close> from the timer that \<open>saveFingerprint\<close> sets two
  seconds after a save; that timer is never cleared. \<open>pendingCapture\<close> is the employee of
  the capture whose fetch is in flight, \<open>successTimer\<close> says that the timer is set.
\<close>

record page =
  dialog :: enroll_state
  enrollDialogOpen :: bool
  enrollEmployee :: "employee option"
  pendingCapture :: "employee option"
  successTimer :: bool

definition initial_page :: page where
  "initial_page = \<lparr>dialog = initial_state, enrollDialogOpen = False, enrollEmployee = None,
     pendingCapture = None, successTimer = False\<rparr>"

text \<open>
  What can happen on the page: the dialog is opened for an employee (the reply is that of
  the scanner check), a button of the dialog is clicked and its handler runs to its end,
  the capture button is clicked and the fetch stays in flight, the fetch in flight settles,
  the Close or Cancel button is clicked, the timer of a save fires. The page behind the
  open dialog cannot be clicked.
\<close>

datatype event =
    OpenDialog employee "json reply"
  | Click click
  | StartCapture
  | CaptureSettles "json reply" "json reply" "json reply"
  | ClickClose
  | SuccessTimer

fun page_step :: "page \<Rightarrow> event \<Rightarrow> page \<times> request list" where
  "page_step p (OpenDialog e healthReply) =
     (if enrollDialogOpen p then (p, [])
      else (let r = openEffect True healthReply (dialog p)
            in (p\<lparr>dialog := final r, enrollDialogOpen := True, enrollEmployee := Some e\<rparr>,
                sent r)))"
| "page_step p (Click c) =
     (if enrollDialogOpen p \<and> pendingCapture p = None
      then (let r = on_click (enrollEmployee p) (dialog p) c
            in (p\<lparr>dialog := final r,
                  successTimer := (successTimer p
                                   \<or> (success (final r) \<and> \<not> success (dialog p)))\<rparr>,
                sent r))
      else (p, []))"
| "page_step p StartCapture =
     (if enrollDialogOpen p \<and> pendingCapture p = None
         \<and> (view_of (enrollEmployee p) (dialog p) = ReadyView
            \<or> retryCaptureShown (enrollEmployee p) (dialog p))
      then (p\<lparr>dialog := capture_begin (dialog p), pendingCapture := enrollEmployee p\<rparr>,
            [PostCapture])
      else (p, []))"
| "page_step p (CaptureSettles c e v) =
     (case pendingCapture p of
        None \<Rightarrow> (p, [])
      | Some x \<Rightarrow>
          (let r = capture_resume (Some x) c e v (dialog p)
           in (p\<lparr>dialog := final r, pendingCapture := None,
                 successTimer := (successTimer p
                                  \<or> (success (final r) \<and> \<not> success (dialog p)))\<rparr>,
               sent r)))"
| "page_step p ClickClose =
     (if enrollDialogOpen p \<and> enrollEmployee p \<noteq> None
         \<and> \<not> capturing (dialog p) \<and> \<not> saving (dialog p)
      then (p\<lparr>enrollDialogOpen := False\<rparr>, [])
      else (p, []))"
| "page_step p SuccessTimer =
     (if successTimer p then (p\<lparr>enrollDialogOpen := False, successTimer := False\<rparr>, [])
      else (p, []))"

fun page_run :: "page \<Rightarrow> event list \<Rightarrow> page \<times> request list" where
  "page_run p [] = (p, [])"
| "page_run p (ev # evs) =
     (let (p1, sent1) = page_step p ev;
          (p2, sent2) = page_run p1 evs
      in (p2, sent1 @ sent2))"

section \<open>The device clients: fingerprintService and FingerprintApi\<close>

text \<open>
  How a call of an \<open>async\<close> function that returns a value ends: its promise stays
  pending, resolves with a value, or rejects with an error.
\<close>

datatype 'a completion = Pending | Returns 'a | Throws js_exn

text \<open>
  \<open>checkConnection\<close> of \<open>fingerprintService\<close>, with the service's \<open>_isConnected\<close>
  cell: the value returned, the cell afterwards, and the requests sent.
\<close>

definition checkConnection :: "json reply \<Rightarrow> bool \<Rightarrow> bool completion \<times> bool \<times> request list" where
  "checkConnection healthReply isConnected =
     (case healthReply of
        Never \<Rightarrow> (Pending, isConnected, [GetHealth])
      | At t f \<Rightarrow>
          (case fetch_settle f of
             Inl e \<Rightarrow> (Returns False, False, [GetHealth])
           | Inr (st, b) \<Rightarrow>
               if ok st then
                 (case response_json b of
                    Inl e \<Rightarrow> (Returns False, False, [GetHealth])
                  | Inr data \<Rightarrow>
                      (Returns (j_device_opened data \<or> j_mock_mode data),
                       j_device_opened data \<or> j_mock_mode data, [GetHealth]))
               else (Returns False, False, [GetHealth])))"

text \<open>\<open>FingerprintApi.checkHealth\<close>: no \<open>try\<close>, and a \<open>throw\<close> on a non-2xx status.\<close>

definition checkHealth :: "json reply \<Rightarrow> json completion \<times> request list" where
  "checkHealth healthReply =
     (case healthReply of
        Never \<Rightarrow> (Pending, [GetHealth])
      | At t f \<Rightarrow>
          (case fetch_settle f of
             Inl e \<Rightarrow> (Throws e, [GetHealth])
           | Inr (st, b) \<Rightarrow>
               if \<not> ok st then (Throws (Exn ''Error'' ''Fingerprint service not available''),
                                 [GetHealth])
               else
                 (case response_json b of
                    Inl e \<Rightarrow> (Throws e, [GetHealth])
                  | Inr data \<Rightarrow> (Returns data, [GetHealth]))))"

text \<open>
  The truth value of \<open>data.matched === true || (data.score && data.score > 0)\<close>
  ("Match is successful if matched is true OR score > 0"): an absent score and the
  score 0 are falsy.
\<close>

definition isMatch :: "json \<Rightarrow> bool" where
  "isMatch data =
     (j_matched data = Some True
      \<or> (case j_score data of None \<Rightarrow> False | Some sc \<Rightarrow> sc \<noteq> 0 \<and> sc > 0))"

text \<open>
  \<open>verify\<close> of \<open>fingerprintService\<close> and \<open>verifyFingerprint\<close> of the kiosk have the same
  body: the reply of \<open>POST /match\<close> is parsed whatever its status; \<open>success\<close> false, a
  rejected fetch and an unparsable body all return \<open>false\<close>.
\<close>

definition verify :: "json reply \<Rightarrow> bool completion" where
  "verify matchReply =
     (case matchReply of
        Never \<Rightarrow> Pending
      | At t f \<Rightarrow>
          (case fetch_json f of
             Inl e \<Rightarrow> Returns False
           | Inr data \<Rightarrow> if \<not> j_success data then Returns False else Returns (isMatch data)))"

definition verifyFingerprint :: "json reply \<Rightarrow> bool completion" where
  "verifyFingerprint matchReply =
     (case matchReply of
        Never \<Rightarrow> Pending
      | At t f \<Rightarrow>
          (case fetch_json f of
             Inl e \<Rightarrow> Returns False
           | Inr data \<Rightarrow> if \<not> j_success data then Returns False else Returns (isMatch data)))"

section \<open>TimeStationKiosk\<close>

text \<open>
  \<open>captureFingerprint\<close> of the kiosk: the fetch has no abort signal, so the function
  waits for the reply however late it is; every error is thrown again as an \<open>Error\<close>
  with the same message.
\<close>

definition kiosk_captureFingerprint :: "json reply \<Rightarrow> js_string completion" where
  "kiosk_captureFingerprint captureReply =
     (case captureReply of
        Never \<Rightarrow> Pending
      | At t f \<Rightarrow>
          (case fetch_json f of
             Inl e \<Rightarrow>
               Throws (Exn ''Error''
                 (msg_or (message e) ''Capture failed. Place finger firmly on scanner.''))
           | Inr data \<Rightarrow>
               if \<not> j_success data
               then Throws (Exn ''Error''
                      (msg_or (js_or (j_error data) ''Failed to capture fingerprint'')
                         ''Capture failed. Place finger firmly on scanner.''))
               else Returns (j_template data)))"

datatype scan_result = ScanSuccess | ScanFailed

datatype severity = SevSuccess | SevError

text \<open>The cells of the kiosk's state that the scan handlers write.\<close>

record kiosk_state =
  scanning :: bool
  scanResult :: "scan_result option"
  scanMessage :: string
  leaveSubmitting :: bool
  snackbar :: "(string \<times> severity) option"

text \<open>
  The replies the requests of one attempt get (capture, stored template, match, and the
  attendance or leave write), and the clock time as \<open>formatTime\<close> prints it.
\<close>

record scan_env =
  captureReply :: "json reply"
  templateReply :: "json reply"
  matchReply :: "json reply"
  commitReply :: "json reply"
  clockTime :: string

text \<open>\<open>errorData.error\<close> after \<open>response.json().catch(() => ({}))\<close>.\<close>

definition error_of_body :: "json body \<Rightarrow> js_string" where
  "error_of_body b = (case response_json b of Inl e \<Rightarrow> None | Inr d \<Rightarrow> j_error d)"

text \<open>The \<open>catch\<close> and \<open>finally\<close> blocks of \<open>handleFingerprintScan\<close>.\<close>

definition scan_catch :: "string \<Rightarrow> kiosk_state \<Rightarrow> request list \<Rightarrow> kiosk_state run" where
  "scan_catch m s sent1 =
     \<lparr>final = s\<lparr>scanResult := Some ScanFailed,
                 scanMessage := msg_or m ''An error occurred. Please try again.'',
                 scanning := False\<rparr>,
      sent = sent1, settled = True\<rparr>"

definition success_message :: "employee \<Rightarrow> action \<Rightarrow> string \<Rightarrow> string" where
  "success_message e a t =
     (case a of
        clock_in \<Rightarrow> ''Welcome, '' @ firstName e @ ''! Clocked in at '' @ t
      | clock_out \<Rightarrow> ''Goodbye, '' @ firstName e @ ''! Clocked out at '' @ t)"

text \<open>Step 4: record attendance.\<close>

definition record_attendance ::
  "employee \<Rightarrow> action \<Rightarrow> scan_env \<Rightarrow> kiosk_state \<Rightarrow> request list \<Rightarrow> kiosk_state run" where
  "record_attendance e a env s sent1 =
     (let s3 = s\<lparr>scanMessage := ''Recording attendance...''\<rparr>;
          sent3 = sent1 @ [PostAttendanceRecord (employeeId e) a]
      in case commitReply env of
           Never \<Rightarrow> \<lparr>final = s3, sent = sent3, settled = False\<rparr>
         | At t f \<Rightarrow>
             (case fetch_settle f of
                Inl x \<Rightarrow> scan_catch (message x) s3 sent3
              | Inr (st, b) \<Rightarrow>
                  if \<not> ok st
                  then scan_catch (js_or (error_of_body b) ''Failed to record attendance'')
                         s3 sent3
                  else
                    (case response_json b of
                       Inl x \<Rightarrow> scan_catch (message x) s3 sent3
                     | Inr attendanceResult \<Rightarrow>
                         \<lparr>final = s3\<lparr>scanResult := Some ScanSuccess,
                                     scanMessage := js_or (j_message attendanceResult)
                                       (success_message e a (clockTime env)),
                                     scanning := False\<rparr>,
                          sent = sent3, settled = True\<rparr>)))"

text \<open>Step 3: verify fingerprint match.\<close>

definition match_and_record ::
  "employee \<Rightarrow> action \<Rightarrow> scan_env \<Rightarrow> js_string \<Rightarrow> js_string \<Rightarrow> kiosk_state \<Rightarrow> request list
     \<Rightarrow> kiosk_state run" where
  "match_and_record e a env storedTemplate capturedTemplate s sent1 =
     (let sent2 = sent1 @ [PostMatch storedTemplate capturedTemplate]
      in case verifyFingerprint (matchReply env) of
           Pending \<Rightarrow> \<lparr>final = s, sent = sent2, settled = False\<rparr>
         | Throws x \<Rightarrow> scan_catch (message x) s sent2
         | Returns matched \<Rightarrow>
             if \<not> matched
             then scan_catch ''Fingerprint does not match. Please try again.'' s sent2
             else record_attendance e a env s sent2)"

text \<open>Step 2: get stored template from backend.\<close>

definition fetch_template_and_match ::
  "employee \<Rightarrow> action \<Rightarrow> scan_env \<Rightarrow> js_string \<Rightarrow> kiosk_state \<Rightarrow> request list
     \<Rightarrow> kiosk_state run" where
  "fetch_template_and_match e a env capturedTemplate s sent1 =
     (let s2 = s\<lparr>scanMessage := ''Verifying fingerprint...''\<rparr>;
          sent2 = sent1 @ [GetFingerprintTemplate (emp_id e)]
      in case templateReply env of
           Never \<Rightarrow> \<lparr>final = s2, sent = sent2, settled = False\<rparr>
         | At t f \<Rightarrow>
             (case fetch_settle f of
                Inl x \<Rightarrow> scan_catch (message x) s2 sent2
              | Inr (st, b) \<Rightarrow>
                  if \<not> ok st then
                    (if st = 404
                     then scan_catch
                            ''No fingerprint registered. Please enroll your fingerprint first.''
                            s2 sent2
                     else scan_catch (js_or (error_of_body b) ''Failed to fetch fingerprint data'')
                            s2 sent2)
                  else
                    (case response_json b of
                       Inl x \<Rightarrow> scan_catch (message x) s2 sent2
                     | Inr templateData \<Rightarrow>
                         if falsy (j_template templateData)
                         then scan_catch ''No fingerprint template found. Please enroll first.''
                                s2 sent2
                         else match_and_record e a env (j_template templateData)
                                capturedTemplate s2 sent2)))"

text \<open>\<open>handleFingerprintScan\<close>: step 1 is the capture.\<close>

definition handleFingerprintScan ::
  "employee option \<Rightarrow> action \<Rightarrow> scan_env \<Rightarrow> kiosk_state \<Rightarrow> kiosk_state run" where
  "handleFingerprintScan employee a env s =
     (case employee of
        None \<Rightarrow> \<lparr>final = s, sent = [], settled = True\<rparr>
      | Some e \<Rightarrow>
          (let s1 = s\<lparr>scanning := True, scanResult := None,
                      scanMessage := ''Place your finger on the scanner...''\<rparr>
           in case kiosk_captureFingerprint (captureReply env) of
                Pending \<Rightarrow> \<lparr>final = s1, sent = [PostCapture], settled = False\<rparr>
              | Throws x \<Rightarrow> scan_catch (message x) s1 [PostCapture]
              | Returns capturedTemplate \<Rightarrow>
                  if falsy capturedTemplate
                  then scan_catch ''Failed to capture fingerprint. Please try again.''
                         s1 [PostCapture]
                  else fetch_template_and_match e a env capturedTemplate s1 [PostCapture]))"

text \<open>
  The scan button of the clock-in and clock-out dialogs is
  \<open>disabled={!employee?.fingerprintEnrolled}\<close>; the leave dialog has no such test.
\<close>

definition scanButtonEnabled :: "employee option \<Rightarrow> bool" where
  "scanButtonEnabled employee =
     (case employee of None \<Rightarrow> False | Some e \<Rightarrow> fingerprintEnrolled e)"

text \<open>\<open>handleLeaveFingerPrintVerification\<close> and its \<open>catch\<close> and \<open>finally\<close> blocks.\<close>

definition leave_catch :: "string \<Rightarrow> kiosk_state \<Rightarrow> request list \<Rightarrow> kiosk_state run" where
  "leave_catch m s sent1 =
     \<lparr>final = s\<lparr>scanResult := Some ScanFailed, scanMessage := m,
                 snackbar := Some (m, SevError), leaveSubmitting := False,
                 scanning := False\<rparr>,
      sent = sent1, settled = True\<rparr>"

definition submit_leave ::
  "employee \<Rightarrow> scan_env \<Rightarrow> kiosk_state \<Rightarrow> request list \<Rightarrow> kiosk_state run" where
  "submit_leave e env s sent1 =
     (let s3 = s\<lparr>scanMessage := ''Submitting leave request...''\<rparr>;
          sent3 = sent1 @ [PostLeaves (emp_id e)]
      in case commitReply env of
           Never \<Rightarrow> \<lparr>final = s3, sent = sent3, settled = False\<rparr>
         | At t f \<Rightarrow>
             (case fetch_settle f of
                Inl x \<Rightarrow> leave_catch (message x) s3 sent3
              | Inr (st, b) \<Rightarrow>
                  if \<not> ok st
                  then leave_catch (js_or (error_of_body b) ''Failed to submit leave request'')
                         s3 sent3
                  else
                    \<lparr>final = s3\<lparr>scanResult := Some ScanSuccess,
                                scanMessage := ''Leave request submitted successfully!'',
                                snackbar := Some
                                  (''Leave request submitted with fingerprint authorization'',
                                   SevSuccess),
                                leaveSubmitting := False, scanning := False\<rparr>,
                     sent = sent3, settled = True\<rparr>))"

definition leave_match_and_submit ::
  "employee \<Rightarrow> scan_env \<Rightarrow> js_string \<Rightarrow> js_string \<Rightarrow> kiosk_state \<Rightarrow> request list
     \<Rightarrow> kiosk_state run" where
  "leave_match_and_submit e env storedTemplate capturedTemplate s sent1 =
     (let sent2 = sent1 @ [PostMatch storedTemplate capturedTemplate]
      in case verifyFingerprint (matchReply env) of
           Pending \<Rightarrow> \<lparr>final = s, sent = sent2, settled = False\<rparr>
         | Throws x \<Rightarrow> leave_catch (message x) s sent2
         | Returns matched \<Rightarrow>
             if \<not> matched then leave_catch ''Fingerprint verification failed'' s sent2
             else submit_leave e env s sent2)"

definition leave_fetch_template ::
  "employee \<Rightarrow> scan_env \<Rightarrow> js_string \<Rightarrow> kiosk_state \<Rightarrow> request list \<Rightarrow> kiosk_state run" where
  "leave_fetch_template e env capturedTemplate s sent1 =
     (let s2 = s\<lparr>scanMessage := ''Verifying identity...''\<rparr>;
          sent2 = sent1 @ [GetFingerprintTemplate (emp_id e)]
      in case templateReply env of
           Never \<Rightarrow> \<lparr>final = s2, sent = sent2, settled = False\<rparr>
         | At t f \<Rightarrow>
             (case fetch_settle f of
                Inl x \<Rightarrow> leave_catch (message x) s2 sent2
              | Inr (st, b) \<Rightarrow>
                  if \<not> ok st then leave_catch ''No fingerprint registered'' s2 sent2
                  else
                    (case response_json b of
                       Inl x \<Rightarrow> leave_catch (message x) s2 sent2
                     | Inr templateData \<Rightarrow>
                         leave_match_and_submit e env (j_template templateData)
                           capturedTemplate s2 sent2)))"

definition handleLeaveFingerPrintVerification ::
  "employee option \<Rightarrow> scan_env \<Rightarrow> kiosk_state \<Rightarrow> kiosk_state run" where
  "handleLeaveFingerPrintVerification employee env s =
     (case employee of
        None \<Rightarrow> \<lparr>final = s\<lparr>snackbar := Some (''Employee not found'', SevError)\<rparr>,
                 sent = [], settled = True\<rparr>
      | Some e \<Rightarrow>
          (let s1 = s\<lparr>leaveSubmitting := True\<rparr>
           in case kiosk_captureFingerprint (captureReply env) of
                Pending \<Rightarrow> \<lparr>final = s1, sent = [PostCapture], settled = False\<rparr>
              | Throws x \<Rightarrow> leave_catch (message x) s1 [PostCapture]
              | Returns capturedTemplate \<Rightarrow>
                  if falsy capturedTemplate
                  then leave_catch ''Failed to capture fingerprint'' s1 [PostCapture]
                  else leave_fetch_template e env capturedTemplate s1 [PostCapture]))"

section \<open>Properties of replies, and the inputs of the examples\<close>


definition no_reply_within :: "nat \<Rightarrow> 'a reply \<Rightarrow> bool" where
  "no_reply_within ms r = (case r of Never \<Rightarrow> True | At t f \<Rightarrow> ms \<le> t)"

definition example_employee :: employee where
  "example_employee = \<lparr>emp_id = ''e-17'', employeeId = ''1001'', firstName = ''Ada'',
     fingerprintEnrolled = True\<rparr>"

text \<open>The device captured template \<open>t\<close>; the device refused to merge.\<close>

definition captured :: "string \<Rightarrow> json reply" where
  "captured t =
     At 800 (Response 200 (Json (empty_json\<lparr>j_success := True, j_template := Some t\<rparr>)))"

definition merge_rejected :: "json reply" where
  "merge_rejected =
     At 50 (Response 200 (Json (empty_json\<lparr>j_error := Some ''Templates do not match''\<rparr>)))"

text \<open>The dialog just opened, the scanner found connected.\<close>

definition scanner_ready :: enroll_state where
  "scanner_ready = initial_state\<lparr>scannerConnected := True, checkingScanner := False\<rparr>"

text \<open>The dialog waiting for capture 2, one sample kept.\<close>

definition one_sample :: enroll_state where
  "one_sample = scanner_ready\<lparr>activeStep := 1, templates := [Some ''S1''],
     templatesRef := [Some ''S1'']\<rparr>"

text \<open>
  The match call fails: the fetch is rejected, the body is unparsable, or the device
  answers \<open>success: false\<close>. \<open>non_match\<close> is the answer \<open>{success: true, matched: false,
  score: 0}\<close> of a device that compared the two templates and found them different.
\<close>

definition match_call_fails :: "json fetched \<Rightarrow> bool" where
  "match_call_fails f = (case fetch_json f of Inl e \<Rightarrow> True | Inr data \<Rightarrow> \<not> j_success data)"

definition non_match :: json where
  "non_match = empty_json\<lparr>j_success := True, j_matched := Some False, j_score := Some 0\<rparr>"

text \<open>
  A click on the scan button of a clock dialog: the button is on the screen when an
  employee is loaded, no result is shown and no scan is running, and it is disabled
  for an employee whose \<open>fingerprintEnrolled\<close> flag is false.
\<close>

definition clickScan ::
  "employee option \<Rightarrow> action \<Rightarrow> scan_env \<Rightarrow> kiosk_state \<Rightarrow> kiosk_state run" where
  "clickScan employee a env s =
     (if employee \<noteq> None \<and> scanResult s = None \<and> \<not> scanning s \<and> scanButtonEnabled employee
      then handleFingerprintScan employee a env s
      else \<lparr>final = s, sent = [], settled = True\<rparr>)"

text \<open>
  An attempt at the kiosk in which the capture gives \<open>S9\<close>, the backend holds template
  \<open>T1\<close>, and the device answers \<open>{success: true, matched: false, score: 0}\<close>.
\<close>

definition example_env :: scan_env where
  "example_env =
     \<lparr>captureReply = captured ''S9'',
      templateReply = At 20 (Response 200 (Json (empty_json\<lparr>j_template := Some ''T1''\<rparr>))),
      matchReply = At 40 (Response 200 (Json non_match)),
      commitReply = At 30 (Response 200 (Json empty_json)),
      clockTime = ''09:00:00 AM''\<rparr>"

definition idle_kiosk :: kiosk_state where
  "idle_kiosk = \<lparr>scanning = False, scanResult = None, scanMessage = [],
     leaveSubmitting = False, snackbar = None\<rparr>"

text \<open>
  Three employees; a scanner check that finds the device, a merge and a save that succeed;
  a capture whose reply comes five seconds after the request.
\<close>

definition employee_a :: employee where
  "employee_a = \<lparr>emp_id = ''e-21'', employeeId = ''1001'', firstName = ''Ada'',
     fingerprintEnrolled = False\<rparr>"

definition employee_b :: employee where
  "employee_b = \<lparr>emp_id = ''e-22'', employeeId = ''1002'', firstName = ''Ben'',
     fingerprintEnrolled = False\<rparr>"

definition employee_c :: employee where
  "employee_c = \<lparr>emp_id = ''e-23'', employeeId = ''1003'', firstName = ''Cyd'',
     fingerprintEnrolled = False\<rparr>"

definition health_ok :: "json reply" where
  "health_ok = At 5 (Response 200 (Json (empty_json\<lparr>j_device_opened := True\<rparr>)))"

definition merge_ok :: "json reply" where
  "merge_ok =
     At 50 (Response 200 (Json (empty_json\<lparr>j_success := True, j_template := Some ''T''\<rparr>)))"

definition save_ok :: "json reply" where
  "save_ok = At 60 (Response 200 (Json empty_json))"

definition late_capture :: "string \<Rightarrow> json reply" where
  "late_capture t =
     At 5000 (Response 200 (Json (empty_json\<lparr>j_success := True, j_template := Some t\<rparr>)))"

section \<open>What opening the dialog resets, and what it does not\<close>

text \<open>
  When the dialog opens, the effect empties the sample list (state and ref), puts the step
  to 0 and clears the error, the success flag, the saving flag, the status text and the
  countdown, whatever the earlier state and the health reply were.
\<close>

theorem open_resets_session:
  "templates (final (openEffect True healthReply s)) = []
   \<and> templatesRef (final (openEffect True healthReply s)) = []
   \<and> activeStep (final (openEffect True healthReply s)) = 0
   \<and> error (final (openEffect True healthReply s)) = None
   \<and> success (final (openEffect True healthReply s)) = False
   \<and> saving (final (openEffect True healthReply s)) = False
   \<and> statusMessage (final (openEffect True healthReply s)) = []
   \<and> countdown (final (openEffect True healthReply s)) = 0"
  by (simp add: openEffect_def checkScanner_def Let_def)

text \<open>
  The effect does not write \<open>capturing\<close>; that flag is all the opened dialog keeps of the
  state before.
\<close>

lemma open_keeps_capturing:
  "capturing (final (openEffect True healthReply s)) = capturing s"
  by (simp add: openEffect_def checkScanner_def Let_def)

lemma open_forgets_all_but_capturing:
  "capturing s = capturing s'
   \<Longrightarrow> openEffect True healthReply s = openEffect True healthReply s'"
  by (cases s, cases s') (simp add: openEffect_def checkScanner_def Let_def)

text \<open>A capture whose reply comes at once is its two halves one after the other.\<close>

lemma captureFingerprint_two_phases:
  "captureFingerprint employee c e v s =
     \<lparr>final = final (capture_resume employee c e v (capture_begin s)),
      sent = PostCapture # sent (capture_resume employee c e v (capture_begin s)),
      settled = settled (capture_resume employee c e v (capture_begin s))\<rparr>"
  by (simp add: captureFingerprint_def capture_resume_def capture_begin_def capture_catch_def
      saveFingerprint_def save_merged_def save_catch_def Let_def
      split: sum.split option.split reply.split prod.split)

lemmas page_defs = initial_page_def initial_state_def employee_a_def employee_b_def
  employee_c_def health_ok_def merge_ok_def save_ok_def late_capture_def captured_def
  empty_json_def

lemmas dialog_defs = openEffect_def checkScanner_def view_of_def retryCaptureShown_def
  captureFingerprint_def capture_begin_def capture_resume_def saveFingerprint_def
  save_merged_def save_catch_def capture_catch_def CAPTURE_TIMEOUT_def ok_def js_or_def
  msg_or_def Let_def

text \<open>
  C10. A dialog that opens is meant to start a session that holds no sample of an earlier
  one. Employee 1001 is enrolled and the dialog is closed with its Close button; within
  the two seconds of the save's timer the dialog is opened for employee 1002 and a capture
  is started; the timer fires and closes the dialog with that capture in flight. The
  dialog is then opened for employee 1003: the effect empties the sample list, and the
  capture of the session before settles after it and puts its sample \<open>S_old\<close> into the
  new session, at step 1. Two captures later the merge for employee 1003 is sent \<open>S_old\<close>
  with the two samples of the new session.
\<close>

theorem stale_capture_lands_in_new_session:
  "page_run initial_page
     [OpenDialog employee_a health_ok,
      Click (ClickCapture (captured ''A1'') Never Never),
      Click (ClickCapture (captured ''A2'') Never Never),
      Click (ClickCapture (captured ''A3'') merge_ok save_ok),
      ClickClose,
      OpenDialog employee_b health_ok,
      StartCapture,
      SuccessTimer,
      OpenDialog employee_c health_ok,
      CaptureSettles (late_capture ''S_old'') Never Never,
      Click (ClickCapture (captured ''C2'') Never Never),
      Click (ClickCapture (captured ''C3'') Never Never)]
   = (\<lparr>dialog =
        \<lparr>activeStep = 3, capturing = True, saving = True,
         templates = [Some ''S_old'', Some ''C2'', Some ''C3''],
         templatesRef = [Some ''S_old'', Some ''C2'', Some ''C3''],
         error = None, success = False, scannerConnected = True, checkingScanner = False,
         statusMessage = ''Merging fingerprint templates...'', countdown = 0\<rparr>,
       enrollDialogOpen = True, enrollEmployee = Some employee_c,
       pendingCapture = None, successTimer = False\<rparr>,
      [GetHealth, PostCapture, PostCapture, PostCapture,
       PostEnroll ''1001'' [Some ''A1'', Some ''A2'', Some ''A3''],
       PostFingerprintEnroll ''e-21'' (Some ''T''),
       GetHealth, PostCapture,
       GetHealth, PostCapture, PostCapture,
       PostEnroll ''1003'' [Some ''S_old'', Some ''C2'', Some ''C3'']])"
  by (simp add: page_defs dialog_defs)

section \<open>The samples sent to the merge\<close>


text \<open>No click ever sends fewer than three samples to the merge.\<close>

lemma capture_enroll_three:
  "PostEnroll u ts \<in> set (sent (captureFingerprint employee c e v s)) \<Longrightarrow> 3 \<le> length ts"
  by (auto simp add: captureFingerprint_def saveFingerprint_def save_merged_def Let_def
      split: option.splits reply.splits sum.splits prod.splits if_splits)

text \<open>From a session with at most two samples the merge gets exactly three.\<close>

lemma first_merge_has_three:
  "length (templatesRef s) \<le> 2
   \<Longrightarrow> PostEnroll u ts \<in> set (sent (captureFingerprint employee c e v s))
   \<Longrightarrow> length ts = 3"
  by (auto simp add: captureFingerprint_def saveFingerprint_def save_merged_def Let_def
      split: option.splits reply.splits sum.splits prod.splits if_splits)

lemma on_click_enroll_three:
  "PostEnroll u ts \<in> set (sent (on_click employee s c)) \<Longrightarrow> 3 \<le> length ts"
  by (cases c) (auto split: if_splits dest: capture_enroll_three)

lemma clicks_Cons_sent:
  "snd (clicks employee s (c # cs)) =
     sent (on_click employee s c) @ snd (clicks employee (final (on_click employee s c)) cs)"
  by (simp add: Let_def split: prod.split)

lemma clicks_enroll_three:
  "PostEnroll u ts \<in> set (snd (clicks employee s cs)) \<Longrightarrow> 3 \<le> length ts"
proof (induction cs arbitrary: s)
  case Nil
  then show ?case by simp
next
  case (Cons c cs)
  from Cons.prems have "PostEnroll u ts \<in> set (sent (on_click employee s c))
    \<or> PostEnroll u ts \<in> set (snd (clicks employee (final (on_click employee s c)) cs))"
    by (simp only: clicks_Cons_sent set_append Un_iff)
  then show ?case
    using Cons.IH on_click_enroll_three by blast
qed

text \<open>
  C1. The merge is meant to get exactly the 3 captured samples. After three captures
  \<open>S1\<close>, \<open>S2\<close>, \<open>S3\<close> and a merge the device refuses, the error view offers
  "Retry Capture 4"; a capture \<open>S4\<close> made with it is appended to the three kept samples
  and the merge is requested again, with four samples.
\<close>

theorem retry_capture_merges_four_samples:
  "snd (clicks (Some example_employee) scanner_ready
     [ClickCapture (captured ''S1'') Never Never,
      ClickCapture (captured ''S2'') Never Never,
      ClickCapture (captured ''S3'') merge_rejected Never,
      ClickRetryCapture (captured ''S4'') merge_rejected Never])
   = [PostCapture, PostCapture, PostCapture,
      PostEnroll ''1001'' [Some ''S1'', Some ''S2'', Some ''S3''],
      PostCapture,
      PostEnroll ''1001'' [Some ''S1'', Some ''S2'', Some ''S3'', Some ''S4'']]"
  by (simp add: example_employee_def scanner_ready_def captured_def merge_rejected_def
      initial_state_def empty_json_def view_of_def retryCaptureShown_def
      captureFingerprint_def saveFingerprint_def save_catch_def capture_catch_def
      CAPTURE_TIMEOUT_def js_or_def msg_or_def Let_def)

section \<open>The samples of a failed merge and the two retry buttons\<close>

text \<open>"Start Over" empties the sample list and the ref and goes back to step 0.\<close>

lemma start_over_clears:
  "templates (handleRetry s) = [] \<and> templatesRef (handleRetry s) = []
   \<and> activeStep (handleRetry s) = 0 \<and> error (handleRetry s) = None"
  by (simp add: handleRetry_def)

text \<open>
  C2. A retry after a failed merge is meant to start from an empty sample list. After the
  captures \<open>S1\<close>, \<open>S2\<close>, \<open>S3\<close> and a refused merge the three samples are still in the
  list, the error view shows "Retry Capture 4" beside "Start Over", and the merge that
  follows a capture \<open>S4\<close> made with that button is sent the three old samples and the
  new one.
\<close>

theorem retry_capture_submits_stale_samples:
  "templates (fst (clicks (Some example_employee) scanner_ready
       [ClickCapture (captured ''S1'') Never Never,
        ClickCapture (captured ''S2'') Never Never,
        ClickCapture (captured ''S3'') merge_rejected Never]))
     = [Some ''S1'', Some ''S2'', Some ''S3'']
   \<and> retryCaptureShown (Some example_employee)
       (fst (clicks (Some example_employee) scanner_ready
         [ClickCapture (captured ''S1'') Never Never,
          ClickCapture (captured ''S2'') Never Never,
          ClickCapture (captured ''S3'') merge_rejected Never]))
   \<and> sent (on_click (Some example_employee)
       (fst (clicks (Some example_employee) scanner_ready
         [ClickCapture (captured ''S1'') Never Never,
          ClickCapture (captured ''S2'') Never Never,
          ClickCapture (captured ''S3'') merge_rejected Never]))
       (ClickRetryCapture (captured ''S4'') Never Never))
     = [PostCapture, PostEnroll ''1001'' [Some ''S1'', Some ''S2'', Some ''S3'', Some ''S4'']]"
  by (simp add: example_employee_def scanner_ready_def captured_def merge_rejected_def
      initial_state_def empty_json_def view_of_def retryCaptureShown_def
      captureFingerprint_def saveFingerprint_def save_catch_def capture_catch_def
      CAPTURE_TIMEOUT_def js_or_def msg_or_def Let_def)

section \<open>A failed capture keeps the session where it was\<close>





section \<open>A capture that gets no reply in time\<close>

text \<open>
  The kiosk's capture has no timer of its own. A reply that comes 20 seconds after the
  request, past the 15 seconds of the window, and says \<open>success: false, error: "No finger
  detected"\<close> is reported as that device error, and without a reply the call stays
  pending.
\<close>

theorem kiosk_capture_has_no_timeout:
  "no_reply_within CAPTURE_TIMEOUT
     (At 20000 (Response 200 (Json (empty_json\<lparr>j_error := Some ''No finger detected''\<rparr>))))
   \<and> kiosk_captureFingerprint
       (At 20000 (Response 200 (Json (empty_json\<lparr>j_error := Some ''No finger detected''\<rparr>))))
     = Throws (Exn ''Error'' ''No finger detected'')
   \<and> kiosk_captureFingerprint Never = Pending"
  by (simp add: no_reply_within_def CAPTURE_TIMEOUT_def kiosk_captureFingerprint_def
      empty_json_def js_or_def msg_or_def)

text \<open>
  C6, for the captures of the enrollment dialog. A capture that gets no reply within
  \<open>CAPTURE_TIMEOUT\<close> (15 seconds) is aborted by the client: the handler settles, shows the
  capture-timeout error and not a device's capture error, has sent the one capture
  request, and leaves the samples and the step as they were. The kiosk's capture, used by
  the verification flows, does not look at the time of the reply.
\<close>

theorem dialog_capture_timeout:
  assumes "no_reply_within CAPTURE_TIMEOUT r"
  shows "error (final (captureFingerprint employee r e v s))
           = Some ''Capture timeout - no finger detected. Click to try again.''
    \<and> settled (captureFingerprint employee r e v s)
    \<and> sent (captureFingerprint employee r e v s) = [PostCapture]
    \<and> templates (final (captureFingerprint employee r e v s)) = templates s
    \<and> activeStep (final (captureFingerprint employee r e v s)) = activeStep s
    \<and> kiosk_captureFingerprint (At t f) = kiosk_captureFingerprint (At t' f)"
  using assms
  by (cases r)
    (simp_all add: no_reply_within_def captureFingerprint_def capture_catch_def abortError_def
      kiosk_captureFingerprint_def Let_def)

theorem dialog_capture_timeout_witness:
  "no_reply_within CAPTURE_TIMEOUT (At 20000 (Rejected ''Failed to fetch'') :: json reply)
   \<and> error (final (captureFingerprint (Some example_employee)
        (At 20000 (Rejected ''Failed to fetch'')) Never Never one_sample))
      = Some ''Capture timeout - no finger detected. Click to try again.''
   \<and> templates (final (captureFingerprint (Some example_employee)
        (At 20000 (Rejected ''Failed to fetch'')) Never Never one_sample)) = [Some ''S1'']"
proof -
  have h: "no_reply_within CAPTURE_TIMEOUT (At 20000 (Rejected ''Failed to fetch'') :: json reply)"
    by (simp add: no_reply_within_def CAPTURE_TIMEOUT_def)
  from dialog_capture_timeout[OF h, of "Some example_employee" Never Never one_sample]
  show ?thesis
    using h by (simp add: one_sample_def)
qed

section \<open>The match adapters\<close>

text \<open>
  The device answers \<open>{success: true, matched: false, score: 0.87}\<close>: both adapters
  return \<open>true\<close>.
\<close>

theorem verify_false_with_score_is_match:
  "verify (At 40 (Response 200 (Json
      (empty_json\<lparr>j_success := True, j_matched := Some False, j_score := Some 0.87\<rparr>))))
     = Returns True
   \<and> verifyFingerprint (At 40 (Response 200 (Json
      (empty_json\<lparr>j_success := True, j_matched := Some False, j_score := Some 0.87\<rparr>))))
     = Returns True"
  by (simp add: verify_def verifyFingerprint_def isMatch_def empty_json_def)

text \<open>
  C3, as the adapters have it. For every parsed match response, \<open>verify\<close> of the service
  and \<open>verifyFingerprint\<close> of the kiosk return \<open>true\<close> exactly when the response has
  \<open>success\<close> true and either \<open>matched\<close> is true or the score is positive. So a response
  with \<open>matched\<close> false and a positive score is a match, a response with \<open>matched\<close> true
  is a match, and a response with \<open>success\<close> false is none.
\<close>

theorem verify_honours_both_signals:
  "verify (At t (Response st (Json data)))
     = Returns (j_success data
         \<and> (j_matched data = Some True \<or> (\<exists>sc. j_score data = Some sc \<and> 0 < sc)))
   \<and> verifyFingerprint (At t (Response st (Json data)))
     = Returns (j_success data
         \<and> (j_matched data = Some True \<or> (\<exists>sc. j_score data = Some sc \<and> 0 < sc)))"
  by (auto simp add: verify_def verifyFingerprint_def isMatch_def split: option.splits)

section \<open>The kiosk's handlers read the match reply through verifyFingerprint only\<close>

lemmas scan_defs = handleFingerprintScan_def fetch_template_and_match_def match_and_record_def
  record_attendance_def scan_catch_def

lemmas leave_defs = handleLeaveFingerPrintVerification_def leave_fetch_template_def
  leave_match_and_submit_def submit_leave_def leave_catch_def

lemmas example_defs = example_env_def example_employee_def idle_kiosk_def captured_def
  non_match_def empty_json_def

lemma verifyFingerprint_fails:
  "match_call_fails f \<Longrightarrow> verifyFingerprint (At t f) = Returns False"
  by (simp add: match_call_fails_def verifyFingerprint_def split: sum.splits)

lemma verifyFingerprint_non_match:
  "verifyFingerprint (At t (Response st (Json non_match))) = Returns False"
  by (simp add: verifyFingerprint_def non_match_def isMatch_def empty_json_def)

lemma record_attendance_env:
  "commitReply env1 = commitReply env2 \<Longrightarrow> clockTime env1 = clockTime env2
   \<Longrightarrow> record_attendance e a env1 s sent1 = record_attendance e a env2 s sent1"
  by (simp add: record_attendance_def Let_def split: reply.split sum.split prod.split)

lemma match_and_record_env:
  "verifyFingerprint (matchReply env1) = verifyFingerprint (matchReply env2)
   \<Longrightarrow> commitReply env1 = commitReply env2 \<Longrightarrow> clockTime env1 = clockTime env2
   \<Longrightarrow> match_and_record e a env1 st c s sent1 = match_and_record e a env2 st c s sent1"
  using record_attendance_env[of env1 env2]
  by (simp add: match_and_record_def Let_def split: completion.split)

lemma fetch_template_and_match_env:
  "verifyFingerprint (matchReply env1) = verifyFingerprint (matchReply env2)
   \<Longrightarrow> templateReply env1 = templateReply env2
   \<Longrightarrow> commitReply env1 = commitReply env2 \<Longrightarrow> clockTime env1 = clockTime env2
   \<Longrightarrow> fetch_template_and_match e a env1 c s sent1 = fetch_template_and_match e a env2 c s sent1"
  using match_and_record_env[of env1 env2]
  by (simp add: fetch_template_and_match_def Let_def
      split: reply.split sum.split prod.split)

lemma handleFingerprintScan_env:
  "verifyFingerprint (matchReply env1) = verifyFingerprint (matchReply env2)
   \<Longrightarrow> captureReply env1 = captureReply env2 \<Longrightarrow> templateReply env1 = templateReply env2
   \<Longrightarrow> commitReply env1 = commitReply env2 \<Longrightarrow> clockTime env1 = clockTime env2
   \<Longrightarrow> handleFingerprintScan employee a env1 s = handleFingerprintScan employee a env2 s"
  using fetch_template_and_match_env[of env1 env2]
  by (simp add: handleFingerprintScan_def Let_def split: option.split completion.split)

lemma submit_leave_env:
  "commitReply env1 = commitReply env2
   \<Longrightarrow> submit_leave e env1 s sent1 = submit_leave e env2 s sent1"
  by (simp add: submit_leave_def Let_def split: reply.split sum.split prod.split)

lemma leave_match_and_submit_env:
  "verifyFingerprint (matchReply env1) = verifyFingerprint (matchReply env2)
   \<Longrightarrow> commitReply env1 = commitReply env2
   \<Longrightarrow> leave_match_and_submit e env1 st c s sent1 = leave_match_and_submit e env2 st c s sent1"
  using submit_leave_env[of env1 env2]
  by (simp add: leave_match_and_submit_def Let_def split: completion.split)

lemma leave_fetch_template_env:
  "verifyFingerprint (matchReply env1) = verifyFingerprint (matchReply env2)
   \<Longrightarrow> templateReply env1 = templateReply env2 \<Longrightarrow> commitReply env1 = commitReply env2
   \<Longrightarrow> leave_fetch_template e env1 c s sent1 = leave_fetch_template e env2 c s sent1"
  using leave_match_and_submit_env[of env1 env2]
  by (simp add: leave_fetch_template_def Let_def split: reply.split sum.split prod.split)

lemma handleLeave_env:
  "verifyFingerprint (matchReply env1) = verifyFingerprint (matchReply env2)
   \<Longrightarrow> captureReply env1 = captureReply env2 \<Longrightarrow> templateReply env1 = templateReply env2
   \<Longrightarrow> commitReply env1 = commitReply env2
   \<Longrightarrow> handleLeaveFingerPrintVerification employee env1 s
       = handleLeaveFingerPrintVerification employee env2 s"
  using leave_fetch_template_env[of env1 env2]
  by (simp add: handleLeaveFingerPrintVerification_def Let_def
      split: option.split completion.split)

section \<open>An error of the match call and a mismatch look the same\<close>

text \<open>
  The match request dies with a network error ("Failed to fetch") after a good capture
  and a good template fetch: the kiosk shows "Fingerprint does not match. Please try
  again." and the attempt has failed.
\<close>

theorem match_network_error_shown_as_mismatch:
  "final (handleFingerprintScan (Some example_employee) clock_in
      (example_env\<lparr>matchReply := At 30 (Rejected ''Failed to fetch'')\<rparr>) idle_kiosk)
   = \<lparr>scanning = False, scanResult = Some ScanFailed,
      scanMessage = ''Fingerprint does not match. Please try again.'',
      leaveSubmitting = False, snackbar = None\<rparr>"
  by (simp add: example_defs scan_defs kiosk_captureFingerprint_def verifyFingerprint_def
      falsy_def ok_def msg_or_def Let_def)

text \<open>
  C4, as the code has it. A device or network error during the match call (a rejected
  fetch, an unparsable body, or \<open>success: false\<close>) makes \<open>verify\<close> return \<open>false\<close>, and
  the clock and leave handlers then end exactly as they do when the device answers
  \<open>{success: true, matched: false, score: 0}\<close>: same state, same message, same requests.
  The mismatch outcome does not tell an identity mismatch from a failure of the match
  call.
\<close>

theorem match_failure_reported_as_mismatch:
  assumes "match_call_fails f"
  shows "verify (At t f) = Returns False
    \<and> handleFingerprintScan employee a (env\<lparr>matchReply := At t f\<rparr>) s
      = handleFingerprintScan employee a
          (env\<lparr>matchReply := At t' (Response 200 (Json non_match))\<rparr>) s
    \<and> handleLeaveFingerPrintVerification employee (env\<lparr>matchReply := At t f\<rparr>) s
      = handleLeaveFingerPrintVerification employee
          (env\<lparr>matchReply := At t' (Response 200 (Json non_match))\<rparr>) s"
proof -
  have v: "verify (At t f) = Returns False"
    using assms by (simp add: match_call_fails_def verify_def split: sum.splits)
  have m: "verifyFingerprint (At t f) = verifyFingerprint (At t' (Response 200 (Json non_match)))"
    using verifyFingerprint_fails[OF assms] verifyFingerprint_non_match by simp
  have scan: "handleFingerprintScan employee a (env\<lparr>matchReply := At t f\<rparr>) s
      = handleFingerprintScan employee a
          (env\<lparr>matchReply := At t' (Response 200 (Json non_match))\<rparr>) s"
    by (rule handleFingerprintScan_env) (simp_all add: m)
  have leave: "handleLeaveFingerPrintVerification employee (env\<lparr>matchReply := At t f\<rparr>) s
      = handleLeaveFingerPrintVerification employee
          (env\<lparr>matchReply := At t' (Response 200 (Json non_match))\<rparr>) s"
    by (rule handleLeave_env) (simp_all add: m)
  show ?thesis using v scan leave by simp
qed

theorem match_failure_reported_as_mismatch_witness:
  "match_call_fails (Rejected ''Failed to fetch'' :: json fetched)
   \<and> verify (At 30 (Rejected ''Failed to fetch'')) = Returns False
   \<and> handleFingerprintScan (Some example_employee) clock_in
       (example_env\<lparr>matchReply := At 30 (Rejected ''Failed to fetch'')\<rparr>) idle_kiosk
     = handleFingerprintScan (Some example_employee) clock_in
       (example_env\<lparr>matchReply := At 40 (Response 200 (Json non_match))\<rparr>) idle_kiosk"
proof -
  have h: "match_call_fails (Rejected ''Failed to fetch'' :: json fetched)"
    by (simp add: match_call_fails_def)
  from match_failure_reported_as_mismatch[OF h, where t = 30 and t' = 40
      and employee = "Some example_employee" and a = clock_in and env = example_env
      and s = idle_kiosk]
  show ?thesis
    using h by simp
qed

section \<open>An employee without a stored template\<close>

text \<open>
  The backend answers 404 to the template request of a clock-in: by then the capture
  request has been sent.
\<close>

theorem not_enrolled_found_after_capture:
  "sent (handleFingerprintScan (Some example_employee) clock_in
      (example_env\<lparr>templateReply := At 20 (Response 404
         (Json (empty_json\<lparr>j_error := Some ''Fingerprint not enrolled''\<rparr>)))\<rparr>) idle_kiosk)
   = [PostCapture, GetFingerprintTemplate ''e-17'']
   \<and> scanMessage (final (handleFingerprintScan (Some example_employee) clock_in
      (example_env\<lparr>templateReply := At 20 (Response 404
         (Json (empty_json\<lparr>j_error := Some ''Fingerprint not enrolled''\<rparr>)))\<rparr>) idle_kiosk))
   = ''No fingerprint registered. Please enroll your fingerprint first.''"
  by (simp add: example_defs scan_defs kiosk_captureFingerprint_def
      falsy_def ok_def msg_or_def Let_def)

text \<open>
  C5, as the handlers have it. In a clock-in, clock-out or leave attempt whose capture
  gave a template and whose template request is answered 404, the attempt fails with the
  not-registered message after the capture: the requests are the capture and the template
  request, and neither the match nor the attendance or leave write follows. In the clock
  dialogs the scan button does nothing for an employee whose \<open>fingerprintEnrolled\<close> flag
  is false, so no request is sent for such an employee.
\<close>

theorem not_enrolled_fails_after_capture:
  assumes "kiosk_captureFingerprint (captureReply env) = Returns (Some c)" and "c \<noteq> []"
    and "templateReply env = At t (Response 404 b)"
  shows "sent (handleFingerprintScan (Some e) a env s)
        = [PostCapture, GetFingerprintTemplate (emp_id e)]
    \<and> scanResult (final (handleFingerprintScan (Some e) a env s)) = Some ScanFailed
    \<and> scanMessage (final (handleFingerprintScan (Some e) a env s))
        = ''No fingerprint registered. Please enroll your fingerprint first.''
    \<and> sent (handleLeaveFingerPrintVerification (Some e) env s)
        = [PostCapture, GetFingerprintTemplate (emp_id e)]
    \<and> scanResult (final (handleLeaveFingerPrintVerification (Some e) env s)) = Some ScanFailed
    \<and> scanMessage (final (handleLeaveFingerPrintVerification (Some e) env s))
        = ''No fingerprint registered''
    \<and> (\<not> fingerprintEnrolled e \<longrightarrow> sent (clickScan (Some e) a env s) = [])"
  using assms
  by (simp add: scan_defs leave_defs clickScan_def scanButtonEnabled_def falsy_def ok_def
      msg_or_def Let_def)

text \<open>
  An employee never enrolled and a backend that answers 404: the handler, called as the
  leave dialog calls it, captures and then fails; the scan button of a clock dialog sends
  nothing.
\<close>

theorem not_enrolled_fails_after_capture_witness:
  "kiosk_captureFingerprint (captureReply
       (example_env\<lparr>templateReply := At 20 (Response 404 (Json empty_json))\<rparr>))
     = Returns (Some ''S9'')
   \<and> sent (handleLeaveFingerPrintVerification
       (Some (example_employee\<lparr>fingerprintEnrolled := False\<rparr>))
       (example_env\<lparr>templateReply := At 20 (Response 404 (Json empty_json))\<rparr>) idle_kiosk)
     = [PostCapture, GetFingerprintTemplate ''e-17'']
   \<and> scanMessage (final (handleLeaveFingerPrintVerification
       (Some (example_employee\<lparr>fingerprintEnrolled := False\<rparr>))
       (example_env\<lparr>templateReply := At 20 (Response 404 (Json empty_json))\<rparr>) idle_kiosk))
     = ''No fingerprint registered''
   \<and> sent (clickScan (Some (example_employee\<lparr>fingerprintEnrolled := False\<rparr>)) clock_in
       (example_env\<lparr>templateReply := At 20 (Response 404 (Json empty_json))\<rparr>) idle_kiosk)
     = []"
proof -
  let ?env = "example_env\<lparr>templateReply := At 20 (Response 404 (Json empty_json))\<rparr>"
  have h1: "kiosk_captureFingerprint (captureReply ?env) = Returns (Some ''S9'')"
    by (simp add: example_defs kiosk_captureFingerprint_def)
  have h2: "''S9'' \<noteq> []"
    by simp
  have h3: "templateReply ?env = At 20 (Response 404 (Json empty_json))"
    by simp
  from not_enrolled_fails_after_capture[OF h1 h2 h3,
      where e = "example_employee\<lparr>fingerprintEnrolled := False\<rparr>" and a = clock_in
      and s = idle_kiosk]
  show ?thesis
    using h1 by (simp add: example_employee_def)
qed

section \<open>A mismatch writes nothing\<close>

text \<open>
  Whatever the replies, the attendance write and the leave submission are requested only
  after \<open>verifyFingerprint\<close> has returned \<open>true\<close>.
\<close>

lemma attendance_only_after_match:
  "PostAttendanceRecord u a' \<in> set (sent (handleFingerprintScan employee a env s))
     \<Longrightarrow> verifyFingerprint (matchReply env) = Returns True"
  by (auto simp add: scan_defs Let_def
      split: option.splits completion.splits reply.splits sum.splits prod.splits if_splits)

lemma leave_only_after_match:
  "PostLeaves u \<in> set (sent (handleLeaveFingerPrintVerification employee env s))
     \<Longrightarrow> verifyFingerprint (matchReply env) = Returns True"
  by (auto simp add: leave_defs Let_def
      split: option.splits completion.splits reply.splits sum.splits prod.splits if_splits)

text \<open>
  C7. In a verification attempt that reaches the match step (the capture gave a template
  and the backend returned the stored one) and whose match yields a non-match, the
  attempt fails with the mismatch message, the requests are the capture, the template
  request and the match, and no attendance record is written; the leave flow likewise
  fails with its verification-failed message and submits no leave request.
\<close>

theorem mismatch_never_records:
  assumes "kiosk_captureFingerprint (captureReply env) = Returns (Some c)" and "c \<noteq> []"
    and "templateReply env = At t (Response st (Json templateData))" and "ok st"
    and "j_template templateData = Some stored" and "stored \<noteq> []"
    and "verifyFingerprint (matchReply env) = Returns False"
  shows "scanResult (final (handleFingerprintScan (Some e) a env s)) = Some ScanFailed
    \<and> scanMessage (final (handleFingerprintScan (Some e) a env s))
        = ''Fingerprint does not match. Please try again.''
    \<and> sent (handleFingerprintScan (Some e) a env s)
        = [PostCapture, GetFingerprintTemplate (emp_id e), PostMatch (Some stored) (Some c)]
    \<and> PostAttendanceRecord u a' \<notin> set (sent (handleFingerprintScan (Some e) a env s))
    \<and> scanResult (final (handleLeaveFingerPrintVerification (Some e) env s)) = Some ScanFailed
    \<and> scanMessage (final (handleLeaveFingerPrintVerification (Some e) env s))
        = ''Fingerprint verification failed''
    \<and> sent (handleLeaveFingerPrintVerification (Some e) env s)
        = [PostCapture, GetFingerprintTemplate (emp_id e), PostMatch (Some stored) (Some c)]
    \<and> PostLeaves u \<notin> set (sent (handleLeaveFingerPrintVerification (Some e) env s))"
  using assms
  by (simp add: scan_defs leave_defs falsy_def msg_or_def Let_def)

text \<open>The device answers \<open>{success: true, matched: false, score: 0}\<close> to a clock-in.\<close>

theorem mismatch_never_records_witness:
  "verifyFingerprint (matchReply example_env) = Returns False
   \<and> scanResult (final (handleFingerprintScan (Some example_employee) clock_in example_env
        idle_kiosk)) = Some ScanFailed
   \<and> scanMessage (final (handleFingerprintScan (Some example_employee) clock_in example_env
        idle_kiosk)) = ''Fingerprint does not match. Please try again.''
   \<and> sent (handleFingerprintScan (Some example_employee) clock_in example_env idle_kiosk)
     = [PostCapture, GetFingerprintTemplate ''e-17'', PostMatch (Some ''T1'') (Some ''S9'')]
   \<and> PostAttendanceRecord ''1001'' clock_in
       \<notin> set (sent (handleFingerprintScan (Some example_employee) clock_in example_env
           idle_kiosk))"
proof -
  have h1: "kiosk_captureFingerprint (captureReply example_env) = Returns (Some ''S9'')"
    by (simp add: example_defs kiosk_captureFingerprint_def)
  have h2: "''S9'' \<noteq> []"
    by simp
  have h3: "templateReply example_env
      = At 20 (Response 200 (Json (empty_json\<lparr>j_template := Some ''T1''\<rparr>)))"
    by (simp add: example_env_def)
  have h4: "ok 200"
    by (simp add: ok_def)
  have h5: "j_template (empty_json\<lparr>j_template := Some ''T1''\<rparr>) = Some ''T1''"
    by simp
  have h6: "''T1'' \<noteq> []"
    by simp
  have h7: "verifyFingerprint (matchReply example_env) = Returns False"
    by (simp add: example_env_def verifyFingerprint_non_match)
  from mismatch_never_records[OF h1 h2 h3 h4 h5 h6 h7,
      where e = example_employee and a = clock_in and s = idle_kiosk and u = "''1001''"
      and a' = clock_in]
  show ?thesis
    using h7 by (simp add: example_employee_def)
qed

section \<open>The health checks\<close>

text \<open>
  The device service answers 503 to \<open>GET /health\<close>: \<open>FingerprintApi.checkHealth\<close>
  throws.
\<close>

theorem checkHealth_throws_on_non_2xx:
  "checkHealth (At 10 (Response 503 (Unparsable ''Service Unavailable'' ''Unexpected token S'')))
     = (Throws (Exn ''Error'' ''Fingerprint service not available''), [GetHealth])"
  by (simp add: checkHealth_def ok_def)

text \<open>
  C9, for \<open>checkConnection\<close> of \<open>fingerprintService\<close>. For every outcome of the health
  request (a network error, a non-2xx status, a 2xx status with or without a parsable
  body) it returns a boolean and never throws, the boolean is \<open>false\<close> on a network error
  and on a non-2xx status, its one request is \<open>GET /health\<close>, and what it returns does not
  depend on the result of an earlier call. \<open>FingerprintApi.checkHealth\<close> is not soft: a
  network error and a non-2xx status make it throw.
\<close>

theorem checkConnection_fails_soft:
  "(\<exists>connected. checkConnection (At t f) c = (Returns connected, connected, [GetHealth]))
   \<and> checkConnection (At t f) c = checkConnection (At t f) c'
   \<and> checkConnection (At t (Rejected m)) c = (Returns False, False, [GetHealth])
   \<and> (\<not> ok st \<longrightarrow>
        checkConnection (At t (Response st b)) c = (Returns False, False, [GetHealth]))
   \<and> checkHealth (At t (Rejected m)) = (Throws (Exn ''TypeError'' m), [GetHealth])
   \<and> (\<not> ok st \<longrightarrow>
        checkHealth (At t (Response st b))
          = (Throws (Exn ''Error'' ''Fingerprint service not available''), [GetHealth]))"
  by (auto simp add: checkConnection_def checkHealth_def split: sum.splits prod.splits)

theorem checkConnection_fails_soft_witness:
  "\<not> ok 503
   \<and> checkConnection
       (At 10 (Response 503 (Unparsable ''Service Unavailable'' ''Unexpected token S''))) True
     = (Returns False, False, [GetHealth])
   \<and> checkConnection (At 10 (Rejected ''Failed to fetch'')) True
     = (Returns False, False, [GetHealth])"
proof -
  have h: "\<not> ok 503"
    by (simp add: ok_def)
  from checkConnection_fails_soft[where t = 10 and st = 503 and c = True
      and b = "Unparsable ''Service Unavailable'' ''Unexpected token S''"
      and m = "''Failed to fetch''"]
  show ?thesis
    using h by simp
qed

end
